theory Spec2Isabelle
  imports Main
begin

section \<open>The storage facade of \<^verbatim>\<open>src/S3Pipeline.py\<close>\<close>

text \<open>
  The class \<^verbatim>\<open>S3Pipeline\<close> wraps five calls of an object-storage SDK client. Each
  method runs one \<^verbatim>\<open>try\<close> block and converts some exception classes into a
  sentinel return value. The embedding keeps three things explicit that Python
  leaves implicit:
  \<^item> an exception is a value: a call yields \<open>Inl e\<close> when it raises \<open>e\<close>
    and \<open>Inr v\<close> when it returns \<open>v\<close>;
  \<^item> the SDK client, the paginator, the body stream and the CSV decoder are
    not part of the repository, so they are parameters (records of functions
    over an arbitrary state \<open>'w\<close> of the service and the local disk);
  \<^item> every call made on such a collaborator is appended to a call list, the
    way a \<^verbatim>\<open>unittest.mock.Mock\<close> records it, and every logger call is
    appended to a list of log records.
\<close>

subsection \<open>Values, exceptions, responses\<close>

text \<open>Python \<^verbatim>\<open>bytes\<close>: a list of 8-bit characters.\<close>

type_synonym bytes = "char list"

text \<open>
  The classes of what a call can raise, as far as the handlers of the source
  and the SDK tell them apart:
  \<^item> \<^verbatim>\<open>botocore.exceptions.ClientError\<close>, an error response of the service;
  \<^item> \<^verbatim>\<open>pd.errors.EmptyDataError\<close>;
  \<^item> the \<^verbatim>\<open>KeyError\<close> of a failed subscript, carrying the key;
  \<^item> \<^verbatim>\<open>boto3.exceptions.S3UploadFailedError\<close>, which the SDK's \<^verbatim>\<open>upload_file\<close>
    raises when the service rejects the upload; it is not a \<^verbatim>\<open>ClientError\<close>;
  \<^item> any other subclass of \<^verbatim>\<open>Exception\<close>;
  \<^item> a \<^verbatim>\<open>BaseException\<close> that is not an \<^verbatim>\<open>Exception\<close> (\<^verbatim>\<open>KeyboardInterrupt\<close>,
    \<^verbatim>\<open>SystemExit\<close>, \<^verbatim>\<open>GeneratorExit\<close>), which \<^verbatim>\<open>except Exception\<close> does not catch.
  Each carries a text; for a \<^verbatim>\<open>KeyError\<close> it is the key.
\<close>

datatype exc =
    ClientError string
  | EmptyDataError string
  | KeyError string
  | S3UploadFailedError string
  | OtherException string
  | NonException string

text \<open>\<^verbatim>\<open>isinstance(e, Exception)\<close>: what \<^verbatim>\<open>except Exception\<close> catches.\<close>

fun is_Exception :: "exc \<Rightarrow> bool" where
  "is_Exception (NonException m) = False"
| "is_Exception e = True"

text \<open>
  \<^verbatim>\<open>str(e)\<close>. For a \<^verbatim>\<open>KeyError\<close> it is the \<^verbatim>\<open>repr\<close> of the key: the key between
  single quotes, for the keys this program uses (plain words, nothing to
  escape).
\<close>

fun str :: "exc \<Rightarrow> string" where
  "str (ClientError m) = m"
| "str (EmptyDataError m) = m"
| "str (KeyError k) = [CHR 0x27] @ k @ [CHR 0x27]"
| "str (S3UploadFailedError m) = m"
| "str (OtherException m) = m"
| "str (NonException m) = m"

text \<open>A Python \<^verbatim>\<open>dict\<close> with string keys; \<^verbatim>\<open>d[k]\<close> raises \<^verbatim>\<open>KeyError\<close> on a missing key.\<close>

type_synonym 'a dict = "string \<rightharpoonup> 'a"

definition getitem :: "'a dict \<Rightarrow> string \<Rightarrow> exc + 'a" where
  "getitem d k = (case d k of None \<Rightarrow> Inl (KeyError k) | Some v \<Rightarrow> Inr v)"

text \<open>
  An entry of a listing (\<^verbatim>\<open>{"Name": ...}\<close>, \<^verbatim>\<open>{"Key": ...}\<close>) is a dict of
  strings; a listing response or page is a dict of entry lists
  (\<^verbatim>\<open>{"Buckets": [...]}\<close>, \<^verbatim>\<open>{"Contents": [...]}\<close>).
\<close>

type_synonym entry = "string dict"
type_synonym page = "entry list dict"

text \<open>
  The iterator \<^verbatim>\<open>paginator.paginate(...)\<close> returns: each \<^verbatim>\<open>next\<close> yields a page,
  raises, or ends the iteration. The listing of a bucket is finite.
\<close>

datatype page_iter =
    StopIteration
  | Yield page page_iter
  | Raise exc

subsection \<open>The collaborators\<close>

text \<open>A call on a collaborator: it returns or raises, and may change the state \<open>'w\<close>.\<close>

type_synonym ('a, 'w) sdk_call = "'w \<Rightarrow> (exc + 'a) \<times> 'w"

text \<open>The body stream of a \<^verbatim>\<open>get_object\<close> response, given by its \<^verbatim>\<open>read()\<close>.\<close>

type_synonym 'w streaming_body = "(bytes, 'w) sdk_call"

record 'w paginator =
  paginate :: "string \<Rightarrow> string \<Rightarrow> (page_iter, 'w) sdk_call"

record 'w s3_client =
  client_upload_file :: "string \<Rightarrow> string \<Rightarrow> string \<Rightarrow> (unit, 'w) sdk_call"
  client_download_file :: "string \<Rightarrow> string \<Rightarrow> string \<Rightarrow> (unit, 'w) sdk_call"
  client_get_object :: "string \<Rightarrow> string \<Rightarrow> ('w streaming_body dict, 'w) sdk_call"
  client_list_buckets :: "(page, 'w) sdk_call"
  client_get_paginator :: "string \<Rightarrow> ('w paginator, 'w) sdk_call"

subsection \<open>The facade object and the world it runs in\<close>

text \<open>The two attributes \<^verbatim>\<open>__init__\<close> sets; the logger is given by its name.\<close>

record 'w S3Pipeline =
  logger :: string
  s3_client :: "'w s3_client"

datatype level = INFO | ERROR

datatype call =
    Boto3Client string
  | UploadFile string string string
  | DownloadFile string string string
  | GetObject string string
  | BodyRead
  | ReadCsv bytes
  | ListBuckets
  | GetPaginator string
  | Paginate string string

record 'w world =
  sdk :: 'w
  calls :: "call list"
  logs :: "(string \<times> level \<times> string) list"

text \<open>What a method call leaves behind: its result, the object, the world.\<close>

record ('a, 'w) outcome =
  returned :: "exc + 'a"
  self_after :: "'w S3Pipeline"
  world_after :: "'w world"

definition record_call :: "call \<Rightarrow> 'w world \<Rightarrow> 'w world" where
  "record_call c w = w\<lparr>calls := calls w @ [c]\<rparr>"

definition invoke :: "call \<Rightarrow> ('a, 'w) sdk_call \<Rightarrow> ('a, 'w world) sdk_call" where
  "invoke c f w = (case f (sdk w) of (r, s) \<Rightarrow> (r, (record_call c w)\<lparr>sdk := s\<rparr>))"

definition logger_info :: "string \<Rightarrow> string \<Rightarrow> 'w world \<Rightarrow> 'w world" where
  "logger_info name msg w = w\<lparr>logs := logs w @ [(name, INFO, msg)]\<rparr>"

definition logger_error :: "string \<Rightarrow> string \<Rightarrow> 'w world \<Rightarrow> 'w world" where
  "logger_error name msg w = w\<lparr>logs := logs w @ [(name, ERROR, msg)]\<rparr>"

text \<open>Statements in sequence inside a \<^verbatim>\<open>try\<close> block: the first exception ends the block.\<close>

definition and_then ::
  "('a, 's) sdk_call \<Rightarrow> ('a \<Rightarrow> ('b, 's) sdk_call) \<Rightarrow> ('b, 's) sdk_call" where
  "and_then m f s = (case m s of (Inl e, s1) \<Rightarrow> (Inl e, s1) | (Inr a, s1) \<Rightarrow> f a s1)"

text \<open>The decimal text of \<^verbatim>\<open>len(...)\<close> inside an f-string.\<close>

fun str_nat :: "nat \<Rightarrow> string" where
  "str_nat n =
     (if n < 10 then [char_of (48 + n)]
      else str_nat (n div 10) @ [char_of (48 + n mod 10)])"

declare str_nat.simps [simp del]

subsection \<open>The methods\<close>

text \<open>
  \<^verbatim>\<open>__init__\<close>: \<^verbatim>\<open>boto3.client\<close> is a parameter; \<open>name\<close> is \<^verbatim>\<open>__name__\<close>. The
  handler (\<^verbatim>\<open>except Exception\<close>) logs and re-raises; what it does not catch
  propagates unlogged.
\<close>

definition init ::
  "(string \<Rightarrow> ('w s3_client, 'w) sdk_call) \<Rightarrow> string \<Rightarrow> 'w world
     \<Rightarrow> (exc + 'w S3Pipeline) \<times> 'w world" where
  "init boto3_client name w =
     (case invoke (Boto3Client ''s3'') (boto3_client ''s3'') w of
        (Inr c, w1) \<Rightarrow>
          (Inr \<lparr>logger = name, s3_client = c\<rparr>,
           logger_info name ''Successfully initialized S3 client'' w1)
      | (Inl e, w1) \<Rightarrow>
          (if is_Exception e then
             (Inl e, logger_error name (''Failed to initialize S3 client: '' @ str e) w1)
           else (Inl e, w1)))"

definition upload_file ::
  "'w S3Pipeline \<Rightarrow> string \<Rightarrow> string \<Rightarrow> string option \<Rightarrow> 'w world \<Rightarrow> (bool, 'w) outcome" where
  "upload_file self file_path bucket_name object_name w =
     (let object_name = (case object_name of None \<Rightarrow> file_path | Some n \<Rightarrow> n) in
      case invoke (UploadFile file_path bucket_name object_name)
             (client_upload_file (s3_client self) file_path bucket_name object_name) w of
        (Inr u, w1) \<Rightarrow>
          \<lparr>returned = Inr True, self_after = self,
           world_after = logger_info (logger self)
             (''Successfully uploaded '' @ file_path @ '' to '' @ bucket_name @ ''/'' @ object_name) w1\<rparr>
      | (Inl (ClientError m), w1) \<Rightarrow>
          \<lparr>returned = Inr False, self_after = self,
           world_after = logger_error (logger self) (''Failed to upload file: '' @ m) w1\<rparr>
      | (Inl e, w1) \<Rightarrow>
          \<lparr>returned = Inl e, self_after = self, world_after = w1\<rparr>)"

definition download_file ::
  "'w S3Pipeline \<Rightarrow> string \<Rightarrow> string \<Rightarrow> string \<Rightarrow> 'w world \<Rightarrow> (bool, 'w) outcome" where
  "download_file self bucket_name object_name file_path w =
     (case invoke (DownloadFile bucket_name object_name file_path)
             (client_download_file (s3_client self) bucket_name object_name file_path) w of
        (Inr u, w1) \<Rightarrow>
          \<lparr>returned = Inr True, self_after = self,
           world_after = logger_info (logger self)
             (''Successfully downloaded '' @ bucket_name @ ''/'' @ object_name @ '' to '' @ file_path) w1\<rparr>
      | (Inl (ClientError m), w1) \<Rightarrow>
          \<lparr>returned = Inr False, self_after = self,
           world_after = logger_error (logger self) (''Failed to download file: '' @ m) w1\<rparr>
      | (Inl e, w1) \<Rightarrow>
          \<lparr>returned = Inl e, self_after = self, world_after = w1\<rparr>)"

text \<open>
  The \<^verbatim>\<open>try\<close> block of \<^verbatim>\<open>read_csv_to_dataframe\<close>. \<open>pd_read_csv\<close> is the decoder
  \<^verbatim>\<open>pd.read_csv\<close> applied to the bytes and the keyword arguments.
\<close>

definition read_csv_try ::
  "(bytes \<Rightarrow> 'kw \<Rightarrow> exc + 'df) \<Rightarrow> 'w S3Pipeline \<Rightarrow> string \<Rightarrow> string \<Rightarrow> 'kw
     \<Rightarrow> ('df, 'w world) sdk_call" where
  "read_csv_try pd_read_csv self bucket_name object_key pandas_kwargs =
     and_then (invoke (GetObject bucket_name object_key)
                 (client_get_object (s3_client self) bucket_name object_key))
       (\<lambda>response. and_then (\<lambda>w. (getitem response ''Body'', w))
       (\<lambda>body. and_then (invoke BodyRead body)
       (\<lambda>csv_content. and_then
          (\<lambda>w. (pd_read_csv csv_content pandas_kwargs, record_call (ReadCsv csv_content) w))
       (\<lambda>df w. (Inr df,
          logger_info (logger self)
            (''Successfully read CSV from '' @ bucket_name @ ''/'' @ object_key) w)))))"

definition read_csv_to_dataframe ::
  "(bytes \<Rightarrow> 'kw \<Rightarrow> exc + 'df) \<Rightarrow> 'w S3Pipeline \<Rightarrow> string \<Rightarrow> string \<Rightarrow> 'kw \<Rightarrow> 'w world
     \<Rightarrow> ('df option, 'w) outcome" where
  "read_csv_to_dataframe pd_read_csv self bucket_name object_key pandas_kwargs w =
     (case read_csv_try pd_read_csv self bucket_name object_key pandas_kwargs w of
        (Inr df, w1) \<Rightarrow>
          \<lparr>returned = Inr (Some df), self_after = self, world_after = w1\<rparr>
      | (Inl (ClientError m), w1) \<Rightarrow>
          \<lparr>returned = Inr None, self_after = self,
           world_after = logger_error (logger self) (''Failed to read CSV from S3: '' @ m) w1\<rparr>
      | (Inl (EmptyDataError m), w1) \<Rightarrow>
          \<lparr>returned = Inr None, self_after = self,
           world_after = logger_error (logger self) ''CSV file is empty'' w1\<rparr>
      | (Inl e, w1) \<Rightarrow>
          (if is_Exception e then
             \<lparr>returned = Inr None, self_after = self,
              world_after = logger_error (logger self) (''Error processing CSV file: '' @ str e) w1\<rparr>
           else \<lparr>returned = Inl e, self_after = self, world_after = w1\<rparr>))"

text \<open>The list comprehension \<^verbatim>\<open>[x[k] for x in xs]\<close>.\<close>

fun comprehension :: "string \<Rightarrow> entry list \<Rightarrow> exc + string list" where
  "comprehension k [] = Inr []"
| "comprehension k (x # xs) =
     (case getitem x k of
        Inl e \<Rightarrow> Inl e
      | Inr v \<Rightarrow> (case comprehension k xs of Inl e \<Rightarrow> Inl e | Inr vs \<Rightarrow> Inr (v # vs)))"

definition list_buckets_try :: "'w S3Pipeline \<Rightarrow> (string list, 'w world) sdk_call" where
  "list_buckets_try self =
     and_then (invoke ListBuckets (client_list_buckets (s3_client self)))
       (\<lambda>response. and_then (\<lambda>w. (getitem response ''Buckets'', w))
       (\<lambda>bs. and_then (\<lambda>w. (comprehension ''Name'' bs, w))
       (\<lambda>buckets w. (Inr buckets,
          logger_info (logger self)
            (''Successfully retrieved '' @ str_nat (length buckets) @ '' buckets'') w))))"

definition list_buckets :: "'w S3Pipeline \<Rightarrow> 'w world \<Rightarrow> (string list, 'w) outcome" where
  "list_buckets self w =
     (case list_buckets_try self w of
        (Inr buckets, w1) \<Rightarrow>
          \<lparr>returned = Inr buckets, self_after = self, world_after = w1\<rparr>
      | (Inl (ClientError m), w1) \<Rightarrow>
          \<lparr>returned = Inr [], self_after = self,
           world_after = logger_error (logger self) (''Failed to list buckets: '' @ m) w1\<rparr>
      | (Inl e, w1) \<Rightarrow>
          \<lparr>returned = Inl e, self_after = self, world_after = w1\<rparr>)"

text \<open>The \<^verbatim>\<open>for page in ...\<close> loop of \<^verbatim>\<open>list_objects\<close>, with the list \<^verbatim>\<open>objects\<close> so far.\<close>

fun for_page :: "page_iter \<Rightarrow> string list \<Rightarrow> exc + string list" where
  "for_page StopIteration objects = Inr objects"
| "for_page (Raise e) objects = Inl e"
| "for_page (Yield page rest) objects =
     (if ''Contents'' \<in> dom page then
        (case getitem page ''Contents'' of
           Inl e \<Rightarrow> Inl e
         | Inr cs \<Rightarrow>
             (case comprehension ''Key'' cs of
                Inl e \<Rightarrow> Inl e
              | Inr ks \<Rightarrow> for_page rest (objects @ ks)))
      else for_page rest objects)"

definition list_objects_try ::
  "'w S3Pipeline \<Rightarrow> string \<Rightarrow> string \<Rightarrow> (string list, 'w world) sdk_call" where
  "list_objects_try self bucket_name prefix =
     and_then (invoke (GetPaginator ''list_objects_v2'')
                 (client_get_paginator (s3_client self) ''list_objects_v2''))
       (\<lambda>paginator. and_then (invoke (Paginate bucket_name prefix)
                                 (paginate paginator bucket_name prefix))
       (\<lambda>pages. and_then (\<lambda>w. (for_page pages [], w))
       (\<lambda>objects w. (Inr objects,
          logger_info (logger self)
            (''Successfully listed '' @ str_nat (length objects) @ '' objects in '' @ bucket_name) w))))"

definition list_objects ::
  "'w S3Pipeline \<Rightarrow> string \<Rightarrow> string \<Rightarrow> 'w world \<Rightarrow> (string list, 'w) outcome" where
  "list_objects self bucket_name prefix w =
     (case list_objects_try self bucket_name prefix w of
        (Inr objects, w1) \<Rightarrow>
          \<lparr>returned = Inr objects, self_after = self, world_after = w1\<rparr>
      | (Inl (ClientError m), w1) \<Rightarrow>
          \<lparr>returned = Inr [], self_after = self,
           world_after = logger_error (logger self) (''Failed to list objects: '' @ m) w1\<rparr>
      | (Inl e, w1) \<Rightarrow>
          \<lparr>returned = Inl e, self_after = self, world_after = w1\<rparr>)"

subsection \<open>Test doubles\<close>

text \<open>
  The fixture of \<^verbatim>\<open>tests/test_S3Pipeline.py\<close>: a \<^verbatim>\<open>Mock\<close> client whose methods
  have a fixed \<^verbatim>\<open>return_value\<close> (\<open>Inr\<close>) or \<^verbatim>\<open>side_effect\<close> (\<open>Inl\<close>). For
  \<^verbatim>\<open>get_object\<close> the script gives what reading the body does; for
  \<^verbatim>\<open>get_paginator\<close>, what \<^verbatim>\<open>paginate\<close> does.
\<close>

record script =
  on_upload_file :: "exc + unit"
  on_download_file :: "exc + unit"
  on_get_object :: "exc + (exc + bytes)"
  on_list_buckets :: "exc + page"
  on_get_paginator :: "exc + (exc + page_iter)"

definition mock_client :: "script \<Rightarrow> 'w s3_client" where
  "mock_client sc =
     \<lparr>client_upload_file = (\<lambda>file_path bucket key s. (on_upload_file sc, s)),
      client_download_file = (\<lambda>bucket key file_path s. (on_download_file sc, s)),
      client_get_object = (\<lambda>bucket key s.
         (case on_get_object sc of
            Inl e \<Rightarrow> Inl e
          | Inr content \<Rightarrow> Inr [''Body'' \<mapsto> (\<lambda>s1. (content, s1))], s)),
      client_list_buckets = (\<lambda>s. (on_list_buckets sc, s)),
      client_get_paginator = (\<lambda>name s.
         (case on_get_paginator sc of
            Inl e \<Rightarrow> Inl e
          | Inr pages \<Rightarrow> Inr \<lparr>paginate = (\<lambda>bucket prefix s1. (pages, s1))\<rparr>, s))\<rparr>"

text \<open>
  Modelled from the spec: the "mocked service boundary" of the round-trip
  property, which stores what was put and returns it on get. The SDK itself is
  not part of the repository. Its state is the local disk and the contents of
  the buckets; uploading a missing local file raises a non-service error,
  getting a missing object raises a service error.
\<close>

record store =
  local_files :: "bytes dict"
  remote_objects :: "string \<times> string \<rightharpoonup> bytes"

definition storing_client :: "store s3_client" where
  "storing_client =
     \<lparr>client_upload_file = (\<lambda>file_path bucket key s.
         (case local_files s file_path of
            None \<Rightarrow> (Inl (OtherException ''FileNotFoundError''), s)
          | Some d \<Rightarrow> (Inr (), s\<lparr>remote_objects := (remote_objects s)((bucket, key) \<mapsto> d)\<rparr>))),
      client_download_file = (\<lambda>bucket key file_path s.
         (case remote_objects s (bucket, key) of
            None \<Rightarrow> (Inl (ClientError ''Not Found''), s)
          | Some d \<Rightarrow> (Inr (), s\<lparr>local_files := (local_files s)(file_path \<mapsto> d)\<rparr>))),
      client_get_object = (\<lambda>bucket key s.
         (case remote_objects s (bucket, key) of
            None \<Rightarrow> (Inl (ClientError ''NoSuchKey''), s)
          | Some d \<Rightarrow> (Inr [''Body'' \<mapsto> (\<lambda>s1. (Inr d, s1))], s))),
      client_list_buckets = (\<lambda>s. (Inr [''Buckets'' \<mapsto> []], s)),
      client_get_paginator = (\<lambda>name s.
         (Inr \<lparr>paginate = (\<lambda>bucket prefix s1. (Inr StopIteration, s1))\<rparr>, s))\<rparr>"

text \<open>
  Concrete inputs, after the test suite: a world in which nothing has been
  called or logged, a facade around a scripted client, the two kinds of error
  the tests raise, the responses the tests return, and a stand-in for the
  decoder that raises \<^verbatim>\<open>EmptyDataError\<close> on empty input as \<^verbatim>\<open>pd.read_csv\<close> does.
\<close>

definition fresh_world :: "'w \<Rightarrow> 'w world" where
  "fresh_world s = \<lparr>sdk = s, calls = [], logs = []\<rparr>"

definition facade :: "script \<Rightarrow> unit S3Pipeline" where
  "facade sc = \<lparr>logger = ''src.S3Pipeline'', s3_client = mock_client sc\<rparr>"

definition access_denied :: exc where
  "access_denied = ClientError ''An error occurred (403): Access Denied''"

definition connection_error :: exc where
  "connection_error = OtherException ''Connection error''"

definition test_script :: script where
  "test_script =
     \<lparr>on_upload_file = Inr (),
      on_download_file = Inr (),
      on_get_object = Inr (Inr ''name,age''),
      on_list_buckets = Inr [''Buckets'' \<mapsto> [[''Name'' \<mapsto> ''bucket1''], [''Name'' \<mapsto> ''bucket2'']]],
      on_get_paginator = Inr (Inr
        (Yield [''Contents'' \<mapsto> [[''Key'' \<mapsto> ''object1''], [''Key'' \<mapsto> ''object2'']]]
        (Yield [''Contents'' \<mapsto> [[''Key'' \<mapsto> ''object3'']]]
         StopIteration)))\<rparr>"

definition raising :: "exc \<Rightarrow> script" where
  "raising e =
     \<lparr>on_upload_file = Inl e, on_download_file = Inl e, on_get_object = Inl e,
      on_list_buckets = Inl e, on_get_paginator = Inl e\<rparr>"

definition stub_read_csv :: "bytes \<Rightarrow> unit \<Rightarrow> exc + bytes list" where
  "stub_read_csv d kw =
     (if d = [] then Inl (EmptyDataError ''No columns to parse from file'')
      else if CHR ''\"'' \<in> set d then Inl (OtherException ''ParserError'')
      else Inr [d])"

text \<open>
  What the SDK's \<^verbatim>\<open>upload_file\<close> raises when the service answers the upload with
  an error, and an interrupt of the process.
\<close>

definition upload_failed :: exc where
  "upload_failed = S3UploadFailedError
     ''Failed to upload test.txt to test-bucket/test-object.txt: An error occurred (AccessDenied) when calling the PutObject operation: Access Denied''"

definition interrupt :: exc where
  "interrupt = NonException ''KeyboardInterrupt''"

text \<open>
  A scripted client that also counts: its state is the number of transfer
  calls (\<^verbatim>\<open>upload_file\<close>, \<^verbatim>\<open>download_file\<close>) made on it so far.
\<close>

definition counting_client :: "script \<Rightarrow> nat s3_client" where
  "counting_client sc =
     (mock_client sc)
       \<lparr>client_upload_file := (\<lambda>file_path bucket key n. (on_upload_file sc, Suc n)),
        client_download_file := (\<lambda>bucket key file_path n. (on_download_file sc, Suc n))\<rparr>"

text \<open>The two pages of the listing test, followed by how the iteration ends.\<close>

definition two_pages_then :: "page_iter \<Rightarrow> script" where
  "two_pages_then fin =
     test_script\<lparr>on_get_paginator := Inr (Inr
        (foldr Yield
           [[''Contents'' \<mapsto> [[''Key'' \<mapsto> ''object1''], [''Key'' \<mapsto> ''object2'']]],
            [''Contents'' \<mapsto> [[''Key'' \<mapsto> ''object3'']]]]
           fin))\<rparr>"

subsection \<open>The listing as the specification words it\<close>

text \<open>
  The keys of one page: the \<^verbatim>\<open>Key\<close> field of each entry of \<^verbatim>\<open>Contents\<close>, none when
  the page has no \<^verbatim>\<open>Contents\<close>; and the pages flattened in order.
\<close>

definition page_keys :: "page \<Rightarrow> string list" where
  "page_keys p = (case p ''Contents'' of None \<Rightarrow> [] | Some cs \<Rightarrow> map (\<lambda>obj. the (obj ''Key'')) cs)"

definition flattened_keys :: "page list \<Rightarrow> string list" where
  "flattened_keys ps = concat (map page_keys ps)"

text \<open>
  The fetch of \<^verbatim>\<open>read_csv_to_dataframe\<close>: the first two statements of its \<^verbatim>\<open>try\<close>
  block (\<^verbatim>\<open>get_object\<close>, then reading the body), before the decoder runs.
\<close>

definition fetch_content :: "'w S3Pipeline \<Rightarrow> string \<Rightarrow> string \<Rightarrow> (bytes, 'w world) sdk_call" where
  "fetch_content self bucket_name object_key =
     and_then (invoke (GetObject bucket_name object_key)
                 (client_get_object (s3_client self) bucket_name object_key))
       (\<lambda>response. and_then (\<lambda>w. (getitem response ''Body'', w))
       (\<lambda>body. invoke BodyRead body))"

text \<open>An iteration that ends normally, without raising.\<close>

fun completes :: "page_iter \<Rightarrow> bool" where
  "completes StopIteration = True"
| "completes (Raise e) = False"
| "completes (Yield p rest) = completes rest"

section \<open>Auxiliary facts\<close>


lemma fst_invoke: "fst (invoke c f w) = fst (f (sdk w))"
  by (simp add: invoke_def split: prod.splits)

lemma snd_invoke: "snd (invoke c f w) = (record_call c w)\<lparr>sdk := snd (f (sdk w))\<rparr>"
  by (simp add: invoke_def split: prod.splits)

lemma invoke_eq: "invoke c f w = (fst (f (sdk w)), (record_call c w)\<lparr>sdk := snd (f (sdk w))\<rparr>)"
  by (simp add: invoke_def split: prod.splits)

lemma and_then_eq:
  "and_then m f s = (case fst (m s) of Inl e \<Rightarrow> (Inl e, snd (m s)) | Inr a \<Rightarrow> f a (snd (m s)))"
  by (cases "m s") (simp add: and_then_def split: sum.splits)

lemma and_then_Inl: "fst (m s) = Inl e \<Longrightarrow> and_then m f s = (Inl e, snd (m s))"
  by (simp add: and_then_eq)

lemma and_then_Inr: "fst (m s) = Inr a \<Longrightarrow> and_then m f s = f a (snd (m s))"
  by (simp add: and_then_eq)

lemma upload_file_returned:
  "returned (upload_file self fp b k w) =
     (case fst (client_upload_file (s3_client self) fp b (case k of None \<Rightarrow> fp | Some n \<Rightarrow> n) (sdk w)) of
        Inr u \<Rightarrow> Inr True
      | Inl (ClientError m) \<Rightarrow> Inr False
      | Inl e \<Rightarrow> Inl e)"
  by (simp add: upload_file_def invoke_eq Let_def split: sum.splits exc.splits)

lemma download_file_returned:
  "returned (download_file self b k fp w) =
     (case fst (client_download_file (s3_client self) b k fp (sdk w)) of
        Inr u \<Rightarrow> Inr True
      | Inl (ClientError m) \<Rightarrow> Inr False
      | Inl e \<Rightarrow> Inl e)"
  by (simp add: download_file_def invoke_eq split: sum.splits exc.splits)

lemma read_csv_returned:
  "returned (read_csv_to_dataframe rd self b k kw w) =
     (case fst (read_csv_try rd self b k kw w) of
        Inr df \<Rightarrow> Inr (Some df)
      | Inl e \<Rightarrow> if is_Exception e then Inr None else Inl e)"
proof (cases "read_csv_try rd self b k kw w")
  case (Pair r w1)
  then show ?thesis
  proof (cases r)
    case (Inl e)
    with Pair show ?thesis
      by (cases e) (simp_all add: read_csv_to_dataframe_def)
  next
    case (Inr df)
    with Pair show ?thesis
      by (simp add: read_csv_to_dataframe_def)
  qed
qed

lemma list_buckets_returned:
  "returned (list_buckets self w) =
     (case fst (list_buckets_try self w) of
        Inr bs \<Rightarrow> Inr bs
      | Inl (ClientError m) \<Rightarrow> Inr []
      | Inl e \<Rightarrow> Inl e)"
  by (simp add: list_buckets_def split: prod.splits sum.splits exc.splits)

lemma list_objects_returned:
  "returned (list_objects self b p w) =
     (case fst (list_objects_try self b p w) of
        Inr ks \<Rightarrow> Inr ks
      | Inl (ClientError m) \<Rightarrow> Inr []
      | Inl e \<Rightarrow> Inl e)"
  by (simp add: list_objects_def split: prod.splits sum.splits exc.splits)

lemma read_csv_try_fetch:
  "read_csv_try rd self b k kw =
     and_then (fetch_content self b k)
       (\<lambda>csv_content. and_then
          (\<lambda>w. (rd csv_content kw, record_call (ReadCsv csv_content) w))
       (\<lambda>df w. (Inr df,
          logger_info (logger self) (''Successfully read CSV from '' @ b @ ''/'' @ k) w)))"
  by (rule ext) (simp add: read_csv_try_def fetch_content_def and_then_def split: prod.splits sum.splits)

lemma read_csv_try_result:
  "fst (read_csv_try rd self b k kw w) =
     (case fst (fetch_content self b k w) of Inl e \<Rightarrow> Inl e | Inr d \<Rightarrow> rd d kw)"
  by (simp add: read_csv_try_fetch and_then_def split: prod.splits sum.splits)

lemma fetch_content_get_raises:
  "fst (client_get_object (s3_client self) b k (sdk w)) = Inl e \<Longrightarrow>
   fetch_content self b k w = (Inl e, (record_call (GetObject b k) w)\<lparr>sdk := snd (client_get_object (s3_client self) b k (sdk w))\<rparr>)"
  by (simp add: fetch_content_def and_then_Inl fst_invoke snd_invoke)

lemma comprehension_all:
  "\<forall>x\<in>set xs. x k \<noteq> None \<Longrightarrow> comprehension k xs = Inr (map (\<lambda>x. the (x k)) xs)"
  by (induction xs) (auto simp: getitem_def)

lemma comprehension_names:
  "map (\<lambda>x. x k) xs = map Some vs \<Longrightarrow> comprehension k xs = Inr vs"
  by (induction xs arbitrary: vs) (auto simp: getitem_def)

lemma for_page_yields:
  "\<forall>p\<in>set ps. \<forall>cs. p ''Contents'' = Some cs \<longrightarrow> (\<forall>obj\<in>set cs. obj ''Key'' \<noteq> None) \<Longrightarrow>
   for_page (foldr Yield ps fin) acc = for_page fin (acc @ flattened_keys ps)"
proof (induction ps arbitrary: acc)
  case Nil
  then show ?case by (simp add: flattened_keys_def)
next
  case (Cons p ps)
  show ?case
  proof (cases "p ''Contents''")
    case None
    with Cons show ?thesis
      by (simp add: flattened_keys_def page_keys_def dom_def)
  next
    case (Some cs)
    with Cons.prems have "\<forall>obj\<in>set cs. obj ''Key'' \<noteq> None" by simp
    then have "comprehension ''Key'' cs = Inr (map (\<lambda>obj. the (obj ''Key'')) cs)"
      by (rule comprehension_all)
    with Some Cons show ?thesis
      by (simp add: flattened_keys_def page_keys_def dom_def getitem_def)
  qed
qed

lemma for_page_completes: "for_page it acc = Inr ks \<Longrightarrow> completes it"
  by (induction it acc rule: for_page.induct) (auto split: if_splits sum.splits)

lemmas doubles = fresh_world_def facade_def access_denied_def connection_error_def
  upload_failed_def interrupt_def test_script_def raising_def mock_client_def

lemma upload_file_calls:
  "calls (world_after (upload_file self fp b k w)) =
     calls w @ [UploadFile fp b (case k of None \<Rightarrow> fp | Some n \<Rightarrow> n)]"
  by (simp add: upload_file_def invoke_eq Let_def record_call_def logger_info_def logger_error_def
      split: sum.splits exc.splits)

lemma download_file_calls:
  "calls (world_after (download_file self b k fp w)) = calls w @ [DownloadFile b k fp]"
  by (simp add: download_file_def invoke_eq record_call_def logger_info_def logger_error_def
      split: sum.splits exc.splits)

lemma list_buckets_try_raises:
  "fst (client_list_buckets (s3_client self) (sdk w)) = Inl e \<Longrightarrow>
   fst (list_buckets_try self w) = Inl e"
  by (simp add: list_buckets_try_def and_then_Inl fst_invoke)

lemma list_objects_try_raises:
  "fst (client_get_paginator (s3_client self) ''list_objects_v2'' (sdk w)) = Inl e \<Longrightarrow>
   fst (list_objects_try self b p w) = Inl e"
  by (simp add: list_objects_try_def and_then_Inl fst_invoke)

lemma list_objects_try_pages:
  "fst (client_get_paginator (s3_client self) ''list_objects_v2'' (sdk w)) = Inr pg \<Longrightarrow>
   fst (paginate pg b p (snd (client_get_paginator (s3_client self) ''list_objects_v2'' (sdk w)))) = Inr it \<Longrightarrow>
   fst (list_objects_try self b p w) = for_page it []"
  by (simp add: list_objects_try_def and_then_eq fst_invoke snd_invoke split: sum.splits)

lemma list_buckets_try_response:
  "fst (client_list_buckets (s3_client self) (sdk w)) = Inr response \<Longrightarrow>
   fst (list_buckets_try self w) =
     (case getitem response ''Buckets'' of Inl e \<Rightarrow> Inl e | Inr bs \<Rightarrow> comprehension ''Name'' bs)"
  by (simp add: list_buckets_try_def and_then_eq fst_invoke snd_invoke split: sum.splits)

lemma read_csv_calls_get_raises:
  "fst (client_get_object (s3_client self) b k (sdk w)) = Inl e \<Longrightarrow>
   calls (world_after (read_csv_to_dataframe rd self b k kw w)) = calls w @ [GetObject b k]"
  by (simp add: read_csv_to_dataframe_def read_csv_try_fetch and_then_Inl fetch_content_get_raises
      record_call_def logger_error_def split: exc.splits)

lemma upload_file_sdk:
  "sdk (world_after (upload_file self fp b k w)) =
     snd (client_upload_file (s3_client self) fp b (case k of None \<Rightarrow> fp | Some n \<Rightarrow> n) (sdk w))"
  by (simp add: upload_file_def invoke_eq Let_def record_call_def logger_info_def logger_error_def
      split: sum.splits exc.splits)

lemma download_file_sdk:
  "sdk (world_after (download_file self b k fp w)) =
     snd (client_download_file (s3_client self) b k fp (sdk w))"
  by (simp add: download_file_def invoke_eq record_call_def logger_info_def logger_error_def
      split: sum.splits exc.splits)

lemma self_after_upload_file: "self_after (upload_file self fp b k w) = self"
  by (simp add: upload_file_def Let_def split: prod.splits sum.splits exc.splits)

lemma init_result: "fst (init boto3_client name w) = map_sum id (\<lambda>c. \<lparr>logger = name, s3_client = c\<rparr>) (fst (boto3_client ''s3'' (sdk w)))"
  by (simp add: init_def invoke_eq split: sum.splits)

lemma fetch_content_read:
  "fst (client_get_object (s3_client self) b k (sdk w)) = Inr response \<Longrightarrow>
   response ''Body'' = Some body \<Longrightarrow>
   fst (fetch_content self b k w) = fst (body (snd (client_get_object (s3_client self) b k (sdk w))))"
  by (simp add: fetch_content_def and_then_eq fst_invoke snd_invoke getitem_def)

lemma list_objects_try_paginate_raises:
  "fst (client_get_paginator (s3_client self) ''list_objects_v2'' (sdk w)) = Inr pg \<Longrightarrow>
   fst (paginate pg b p (snd (client_get_paginator (s3_client self) ''list_objects_v2'' (sdk w)))) = Inl e \<Longrightarrow>
   fst (list_objects_try self b p w) = Inl e"
  by (simp add: list_objects_try_def and_then_eq fst_invoke snd_invoke)

text \<open>
  The last handler of \<^verbatim>\<open>read_csv_to_dataframe\<close> is \<^verbatim>\<open>except Exception\<close>, not a bare
  \<^verbatim>\<open>except\<close>: an interrupt raised inside the \<^verbatim>\<open>try\<close> block leaves the method.
\<close>

lemma read_csv_lets_interrupt_through:
  "returned (read_csv_to_dataframe stub_read_csv (facade (raising interrupt)) ''test-bucket''
     ''test.csv'' () (fresh_world ())) = Inl interrupt"
  by (simp add: read_csv_returned read_csv_try_result fetch_content_def and_then_eq invoke_eq doubles)

section \<open>The claims\<close>

text \<open>
  Claim C1, as it holds of the code. Every method other than the constructor
  turns a service error (\<^verbatim>\<open>ClientError\<close>) raised by any of its SDK calls into its
  sentinel (false, the empty list, \<^verbatim>\<open>None\<close>): for \<^verbatim>\<open>read_csv_to_dataframe\<close> the
  calls are \<^verbatim>\<open>get_object\<close> and the read of the body, for \<^verbatim>\<open>list_objects\<close> they are
  \<^verbatim>\<open>get_paginator\<close>, \<^verbatim>\<open>paginate\<close> and each step of the iteration. No such method
  ever lets a \<^verbatim>\<open>ClientError\<close> reach the caller. \<^verbatim>\<open>read_csv_to_dataframe\<close> returns
  \<^verbatim>\<open>None\<close> for every \<^verbatim>\<open>Exception\<close> raised in its \<^verbatim>\<open>try\<close> block, so only what is
  not an \<^verbatim>\<open>Exception\<close> can leave it. The constructor lets every failure of
  \<^verbatim>\<open>boto3.client\<close> reach the caller. Nothing is said here about what the other
  four methods do with a failure that is not a \<^verbatim>\<open>ClientError\<close>.
\<close>

theorem client_error_becomes_sentinel:
  "(fst (client_upload_file (s3_client self) file_path bucket
           (case object_name of None \<Rightarrow> file_path | Some n \<Rightarrow> n) (sdk w)) = Inl (ClientError m)
      \<longrightarrow> returned (upload_file self file_path bucket object_name w) = Inr False)
   \<and> (fst (client_download_file (s3_client self) bucket key dest (sdk w)) = Inl (ClientError m)
      \<longrightarrow> returned (download_file self bucket key dest w) = Inr False)
   \<and> (fst (client_get_object (s3_client self) bucket key (sdk w)) = Inl (ClientError m)
      \<longrightarrow> returned (read_csv_to_dataframe rd self bucket key kw w) = Inr None)
   \<and> (fst (client_get_object (s3_client self) bucket key (sdk w)) = Inr response
       \<and> response ''Body'' = Some body
       \<and> fst (body (snd (client_get_object (s3_client self) bucket key (sdk w)))) = Inl (ClientError m)
      \<longrightarrow> returned (read_csv_to_dataframe rd self bucket key kw w) = Inr None)
   \<and> (is_Exception e \<and> fst (read_csv_try rd self bucket key kw w) = Inl e
      \<longrightarrow> returned (read_csv_to_dataframe rd self bucket key kw w) = Inr None)
   \<and> (fst (client_list_buckets (s3_client self) (sdk w)) = Inl (ClientError m)
      \<longrightarrow> returned (list_buckets self w) = Inr [])
   \<and> (fst (client_get_paginator (s3_client self) ''list_objects_v2'' (sdk w)) = Inl (ClientError m)
      \<longrightarrow> returned (list_objects self bucket prefix w) = Inr [])
   \<and> (fst (client_get_paginator (s3_client self) ''list_objects_v2'' (sdk w)) = Inr pg
       \<and> fst (paginate pg bucket prefix
            (snd (client_get_paginator (s3_client self) ''list_objects_v2'' (sdk w))))
          = Inl (ClientError m)
      \<longrightarrow> returned (list_objects self bucket prefix w) = Inr [])
   \<and> (fst (client_get_paginator (s3_client self) ''list_objects_v2'' (sdk w)) = Inr pg
       \<and> fst (paginate pg bucket prefix
            (snd (client_get_paginator (s3_client self) ''list_objects_v2'' (sdk w))))
          = Inr (foldr Yield ps (Raise (ClientError m)))
       \<and> (\<forall>p\<in>set ps. \<forall>cs. p ''Contents'' = Some cs \<longrightarrow> (\<forall>obj\<in>set cs. obj ''Key'' \<noteq> None))
      \<longrightarrow> returned (list_objects self bucket prefix w) = Inr [])
   \<and> returned (upload_file self file_path bucket object_name w) \<noteq> Inl (ClientError m)
   \<and> returned (download_file self bucket key dest w) \<noteq> Inl (ClientError m)
   \<and> returned (read_csv_to_dataframe rd self bucket key kw w) \<noteq> Inl (ClientError m)
   \<and> returned (list_buckets self w) \<noteq> Inl (ClientError m)
   \<and> returned (list_objects self bucket prefix w) \<noteq> Inl (ClientError m)
   \<and> (is_Exception e \<longrightarrow> returned (read_csv_to_dataframe rd self bucket key kw w) \<noteq> Inl e)
   \<and> (fst (boto3_client ''s3'' (sdk w)) = Inl e \<longrightarrow> fst (init boto3_client name w) = Inl e)"
proof -
  have up: "returned (upload_file self file_path bucket object_name w) \<noteq> Inl (ClientError m)"
    by (simp add: upload_file_returned split: sum.splits exc.splits)
  have down: "returned (download_file self bucket key dest w) \<noteq> Inl (ClientError m)"
    by (simp add: download_file_returned split: sum.splits exc.splits)
  have csv: "is_Exception e \<longrightarrow> returned (read_csv_to_dataframe rd self bucket key kw w) \<noteq> Inl e" for e
    by (auto simp: read_csv_returned split: sum.splits if_splits)
  from csv [of "ClientError m"]
  have csv_ce: "returned (read_csv_to_dataframe rd self bucket key kw w) \<noteq> Inl (ClientError m)"
    by simp
  have lb: "returned (list_buckets self w) \<noteq> Inl (ClientError m)"
    by (simp add: list_buckets_returned split: sum.splits exc.splits)
  have lo: "returned (list_objects self bucket prefix w) \<noteq> Inl (ClientError m)"
    by (simp add: list_objects_returned split: sum.splits exc.splits)
  have s_up: "fst (client_upload_file (s3_client self) file_path bucket
           (case object_name of None \<Rightarrow> file_path | Some n \<Rightarrow> n) (sdk w)) = Inl (ClientError m)
      \<longrightarrow> returned (upload_file self file_path bucket object_name w) = Inr False"
    by (simp add: upload_file_returned)
  have s_down: "fst (client_download_file (s3_client self) bucket key dest (sdk w)) = Inl (ClientError m)
      \<longrightarrow> returned (download_file self bucket key dest w) = Inr False"
    by (simp add: download_file_returned)
  have s_get: "fst (client_get_object (s3_client self) bucket key (sdk w)) = Inl (ClientError m)
      \<longrightarrow> returned (read_csv_to_dataframe rd self bucket key kw w) = Inr None"
    by (simp add: read_csv_returned read_csv_try_result fetch_content_get_raises)
  have s_read: "fst (client_get_object (s3_client self) bucket key (sdk w)) = Inr response
       \<and> response ''Body'' = Some body
       \<and> fst (body (snd (client_get_object (s3_client self) bucket key (sdk w)))) = Inl (ClientError m)
      \<longrightarrow> returned (read_csv_to_dataframe rd self bucket key kw w) = Inr None"
    by (simp add: read_csv_returned read_csv_try_result fetch_content_read)
  have s_any: "is_Exception e \<and> fst (read_csv_try rd self bucket key kw w) = Inl e
      \<longrightarrow> returned (read_csv_to_dataframe rd self bucket key kw w) = Inr None"
    by (simp add: read_csv_returned)
  have s_lb: "fst (client_list_buckets (s3_client self) (sdk w)) = Inl (ClientError m)
      \<longrightarrow> returned (list_buckets self w) = Inr []"
    by (simp add: list_buckets_returned list_buckets_try_raises)
  have s_lo: "fst (client_get_paginator (s3_client self) ''list_objects_v2'' (sdk w)) = Inl (ClientError m)
      \<longrightarrow> returned (list_objects self bucket prefix w) = Inr []"
    by (simp add: list_objects_returned list_objects_try_raises)
  have s_pg: "fst (client_get_paginator (s3_client self) ''list_objects_v2'' (sdk w)) = Inr pg
       \<and> fst (paginate pg bucket prefix
            (snd (client_get_paginator (s3_client self) ''list_objects_v2'' (sdk w))))
          = Inl (ClientError m)
      \<longrightarrow> returned (list_objects self bucket prefix w) = Inr []"
    by (simp add: list_objects_returned list_objects_try_paginate_raises)
  have s_it: "fst (client_get_paginator (s3_client self) ''list_objects_v2'' (sdk w)) = Inr pg
       \<and> fst (paginate pg bucket prefix
            (snd (client_get_paginator (s3_client self) ''list_objects_v2'' (sdk w))))
          = Inr (foldr Yield ps (Raise (ClientError m)))
       \<and> (\<forall>p\<in>set ps. \<forall>cs. p ''Contents'' = Some cs \<longrightarrow> (\<forall>obj\<in>set cs. obj ''Key'' \<noteq> None))
      \<longrightarrow> returned (list_objects self bucket prefix w) = Inr []"
  proof
    assume a: "fst (client_get_paginator (s3_client self) ''list_objects_v2'' (sdk w)) = Inr pg
       \<and> fst (paginate pg bucket prefix
            (snd (client_get_paginator (s3_client self) ''list_objects_v2'' (sdk w))))
          = Inr (foldr Yield ps (Raise (ClientError m)))
       \<and> (\<forall>p\<in>set ps. \<forall>cs. p ''Contents'' = Some cs \<longrightarrow> (\<forall>obj\<in>set cs. obj ''Key'' \<noteq> None))"
    then have "fst (list_objects_try self bucket prefix w)
        = for_page (foldr Yield ps (Raise (ClientError m))) []"
      by (simp add: list_objects_try_pages)
    also from a have "\<dots> = for_page (Raise (ClientError m)) ([] @ flattened_keys ps)"
      by (intro for_page_yields) simp
    finally show "returned (list_objects self bucket prefix w) = Inr []"
      by (simp add: list_objects_returned)
  qed
  have ini: "fst (boto3_client ''s3'' (sdk w)) = Inl e \<longrightarrow> fst (init boto3_client name w) = Inl e"
    by (simp add: init_result)
  from s_up s_down s_get s_read s_any s_lb s_lo s_pg s_it up down csv_ce lb lo csv [of e] ini
  show ?thesis by blast
qed

theorem client_error_becomes_sentinel_witness:
  "returned (upload_file (facade (raising access_denied)) ''test.txt'' ''test-bucket'' None
     (fresh_world ())) = Inr False
   \<and> returned (download_file (facade (raising access_denied)) ''test-bucket'' ''test.csv''
     ''local-test.txt'' (fresh_world ())) = Inr False
   \<and> returned (read_csv_to_dataframe stub_read_csv (facade (raising access_denied)) ''test-bucket''
     ''test.csv'' () (fresh_world ())) = Inr None
   \<and> returned (read_csv_to_dataframe stub_read_csv
     (facade (test_script\<lparr>on_get_object := Inr (Inl access_denied)\<rparr>)) ''test-bucket''
     ''test.csv'' () (fresh_world ())) = Inr None
   \<and> returned (list_buckets (facade (raising access_denied)) (fresh_world ())) = Inr []
   \<and> returned (list_objects (facade (raising access_denied)) ''test-bucket'' ''test/''
     (fresh_world ())) = Inr []
   \<and> returned (list_objects (facade (test_script\<lparr>on_get_paginator := Inr (Inl access_denied)\<rparr>))
     ''test-bucket'' ''test/'' (fresh_world ())) = Inr []
   \<and> returned (list_objects (facade (two_pages_then (Raise access_denied))) ''test-bucket'' ''test/''
     (fresh_world ())) = Inr []
   \<and> fst (init (\<lambda>service s. (Inl connection_error, s)) ''src.S3Pipeline'' (fresh_world ()))
     = Inl connection_error"
proof -
  let ?m = "''An error occurred (403): Access Denied''"
  let ?ps = "[[''Contents'' \<mapsto> [[''Key'' \<mapsto> ''object1''], [''Key'' \<mapsto> ''object2'']]],
              [''Contents'' \<mapsto> [[''Key'' \<mapsto> ''object3'']]]] :: page list"
  let ?boto = "(\<lambda>service s. (Inl connection_error, s)) :: string \<Rightarrow> (unit s3_client, unit) sdk_call"
  let ?body = "(\<lambda>s1. (Inl access_denied, s1)) :: unit streaming_body"
  let ?pg0 = "\<lparr>paginate = (\<lambda>bucket prefix s1. (Inr StopIteration, s1))\<rparr> :: unit paginator"
  have try_raises: "fst (read_csv_try stub_read_csv (facade (raising access_denied)) ''test-bucket''
      ''test.csv'' () (fresh_world ())) = Inl access_denied"
    by (simp add: read_csv_try_result fetch_content_def and_then_eq invoke_eq doubles)
  note all = client_error_becomes_sentinel [where file_path = "''test.txt''" and bucket = "''test-bucket''"
      and object_name = None and key = "''test.csv''" and dest = "''local-test.txt''"
      and prefix = "''test/''" and rd = stub_read_csv and kw = "()" and w = "fresh_world ()"
      and m = ?m and boto3_client = ?boto and name = "''src.S3Pipeline''"]
  show ?thesis
    using try_raises
      all [where self = "facade (raising access_denied)" and e = access_denied
        and response = Map.empty and body = ?body and pg = ?pg0 and ps = "[]"]
      all [where self = "facade (test_script\<lparr>on_get_object := Inr (Inl access_denied)\<rparr>)"
        and e = connection_error
        and response = "[''Body'' \<mapsto> ?body]" and body = ?body and pg = ?pg0 and ps = "[]"]
      all [where self = "facade (test_script\<lparr>on_get_paginator := Inr (Inl access_denied)\<rparr>)"
        and e = connection_error and response = Map.empty and body = ?body
        and pg = "\<lparr>paginate = (\<lambda>bucket prefix s1. (Inl access_denied, s1))\<rparr>" and ps = "[]"]
      all [where self = "facade (two_pages_then (Raise access_denied))"
        and e = connection_error and response = Map.empty and body = ?body
        and pg = "\<lparr>paginate = (\<lambda>bucket prefix s1. (Inr (foldr Yield ?ps (Raise access_denied)), s1))\<rparr>"
        and ps = ?ps]
    by (simp add: doubles two_pages_then_def)
qed

text \<open>
  Claim C1 as first stated asks for the sentinel on every failure the SDK call
  raises. It fails where the SDK call raises an exception that is not a
  \<^verbatim>\<open>ClientError\<close>, here a connection error: \<^verbatim>\<open>upload_file\<close> and \<^verbatim>\<open>list_buckets\<close>
  raise it to the caller instead of returning false and the empty list.
\<close>

theorem upload_file_propagates_counterexample:
  "fst (client_upload_file (s3_client (facade (raising connection_error))) ''test.txt'' ''test-bucket''
     ''test.txt'' (sdk (fresh_world ()))) = Inl connection_error
   \<and> returned (upload_file (facade (raising connection_error)) ''test.txt'' ''test-bucket'' None
     (fresh_world ())) = Inl connection_error
   \<and> returned (upload_file (facade (raising connection_error)) ''test.txt'' ''test-bucket'' None
     (fresh_world ())) \<noteq> Inr False
   \<and> fst (client_list_buckets (s3_client (facade (raising connection_error))) (sdk (fresh_world ())))
     = Inl connection_error
   \<and> returned (list_buckets (facade (raising connection_error)) (fresh_world ())) = Inl connection_error
   \<and> returned (list_buckets (facade (raising connection_error)) (fresh_world ())) \<noteq> Inr []"
  by (simp add: upload_file_returned list_buckets_returned list_buckets_try_raises doubles)

text \<open>
  Claim C2. When the paginator yields the pages \<open>ps\<close> and then stops, and each
  entry of each \<^verbatim>\<open>Contents\<close> has a \<^verbatim>\<open>Key\<close>, \<^verbatim>\<open>list_objects\<close> returns the keys of
  the pages concatenated in page order and in within-page order. A page
  without \<^verbatim>\<open>Contents\<close> adds nothing; the pages \<^verbatim>\<open>[{Contents:[k1,k2]}, {Contents:[k3]}]\<close>
  give \<^verbatim>\<open>[k1,k2,k3]\<close>; a service error from \<^verbatim>\<open>get_paginator\<close> gives the empty list.
\<close>

theorem list_objects_flattens:
  "(fst (client_get_paginator (s3_client self) ''list_objects_v2'' (sdk w)) = Inr pg
      \<and> fst (paginate pg bucket prefix
            (snd (client_get_paginator (s3_client self) ''list_objects_v2'' (sdk w))))
          = Inr (foldr Yield ps StopIteration)
      \<and> (\<forall>p\<in>set ps. \<forall>cs. p ''Contents'' = Some cs \<longrightarrow> (\<forall>obj\<in>set cs. obj ''Key'' \<noteq> None))
      \<longrightarrow> returned (list_objects self bucket prefix w) = Inr (flattened_keys ps))
   \<and> (''Contents'' \<notin> dom p \<longrightarrow> for_page (Yield p rest) objects = for_page rest objects)
   \<and> for_page
        (Yield [''Contents'' \<mapsto> [[''Key'' \<mapsto> k1], [''Key'' \<mapsto> k2]]]
        (Yield [''Contents'' \<mapsto> [[''Key'' \<mapsto> k3]]] StopIteration)) [] = Inr [k1, k2, k3]
   \<and> (fst (client_get_paginator (s3_client self) ''list_objects_v2'' (sdk w)) = Inl (ClientError m)
      \<longrightarrow> returned (list_objects self bucket prefix w) = Inr [])"
proof (intro conjI impI)
  assume a: "fst (client_get_paginator (s3_client self) ''list_objects_v2'' (sdk w)) = Inr pg
      \<and> fst (paginate pg bucket prefix
            (snd (client_get_paginator (s3_client self) ''list_objects_v2'' (sdk w))))
          = Inr (foldr Yield ps StopIteration)
      \<and> (\<forall>p\<in>set ps. \<forall>cs. p ''Contents'' = Some cs \<longrightarrow> (\<forall>obj\<in>set cs. obj ''Key'' \<noteq> None))"
  then have "fst (list_objects_try self bucket prefix w) = for_page (foldr Yield ps StopIteration) []"
    by (simp add: list_objects_try_pages)
  also from a have "\<dots> = for_page StopIteration ([] @ flattened_keys ps)"
    by (intro for_page_yields) simp
  finally show "returned (list_objects self bucket prefix w) = Inr (flattened_keys ps)"
    by (simp add: list_objects_returned)
next
  assume "''Contents'' \<notin> dom p"
  then show "for_page (Yield p rest) objects = for_page rest objects" by simp
next
  show "for_page
        (Yield [''Contents'' \<mapsto> [[''Key'' \<mapsto> k1], [''Key'' \<mapsto> k2]]]
        (Yield [''Contents'' \<mapsto> [[''Key'' \<mapsto> k3]]] StopIteration)) [] = Inr [k1, k2, k3]"
    by (simp add: getitem_def)
next
  assume "fst (client_get_paginator (s3_client self) ''list_objects_v2'' (sdk w)) = Inl (ClientError m)"
  then show "returned (list_objects self bucket prefix w) = Inr []"
    by (simp add: list_objects_returned list_objects_try_raises)
qed

theorem list_objects_flattens_witness:
  "returned (list_objects (facade test_script) ''test-bucket'' ''test/'' (fresh_world ()))
     = Inr [''object1'', ''object2'', ''object3'']
   \<and> for_page (Yield Map.empty StopIteration) [] = Inr []
   \<and> returned (list_objects (facade (raising access_denied)) ''test-bucket'' ''test/'' (fresh_world ()))
     = Inr []"
  using
    list_objects_flattens [where self = "facade test_script" and w = "fresh_world ()"
      and pg = "\<lparr>paginate = (\<lambda>bucket prefix s1. (Inr
        (Yield [''Contents'' \<mapsto> [[''Key'' \<mapsto> ''object1''], [''Key'' \<mapsto> ''object2'']]]
        (Yield [''Contents'' \<mapsto> [[''Key'' \<mapsto> ''object3'']]]
         StopIteration)), s1))\<rparr>"
      and bucket = "''test-bucket''" and prefix = "''test/''"
      and ps = "[[''Contents'' \<mapsto> [[''Key'' \<mapsto> ''object1''], [''Key'' \<mapsto> ''object2'']]],
                 [''Contents'' \<mapsto> [[''Key'' \<mapsto> ''object3'']]]]"
      and p = Map.empty and rest = StopIteration and objects = "[]"]
    list_objects_flattens [where self = "facade (raising access_denied)" and w = "fresh_world ()"
      and bucket = "''test-bucket''" and prefix = "''test/''"
      and m = "''An error occurred (403): Access Denied''"]
  by (simp add: doubles flattened_keys_def page_keys_def)

text \<open>
  Claim C3. \<^verbatim>\<open>read_csv_to_dataframe\<close> returns \<^verbatim>\<open>None\<close> in exactly three cases: the
  fetch from the service raises (\<^verbatim>\<open>get_object\<close> or the read of its body), the
  decoder reports no data (\<^verbatim>\<open>EmptyDataError\<close>), or the decoder raises anything
  else. The value returned is the same \<^verbatim>\<open>None\<close> in the three cases, so it does
  not tell the cause. What is raised is an \<^verbatim>\<open>Exception\<close> in each case, the kind a
  failure is; no \<^verbatim>\<open>Exception\<close> leaves the method.
\<close>

theorem read_csv_absent_classes:
  "(returned (read_csv_to_dataframe rd self bucket key kw w) = Inr None) =
     ((\<exists>e. is_Exception e \<and> fst (fetch_content self bucket key w) = Inl e)
    \<or> (\<exists>d m. fst (fetch_content self bucket key w) = Inr d \<and> rd d kw = Inl (EmptyDataError m))
    \<or> (\<exists>d e. fst (fetch_content self bucket key w) = Inr d \<and> rd d kw = Inl e
            \<and> is_Exception e \<and> (\<forall>m. e \<noteq> EmptyDataError m)))
   \<and> (is_Exception x \<longrightarrow> returned (read_csv_to_dataframe rd self bucket key kw w) \<noteq> Inl x)"
proof
  show "(returned (read_csv_to_dataframe rd self bucket key kw w) = Inr None) =
     ((\<exists>e. is_Exception e \<and> fst (fetch_content self bucket key w) = Inl e)
    \<or> (\<exists>d m. fst (fetch_content self bucket key w) = Inr d \<and> rd d kw = Inl (EmptyDataError m))
    \<or> (\<exists>d e. fst (fetch_content self bucket key w) = Inr d \<and> rd d kw = Inl e
            \<and> is_Exception e \<and> (\<forall>m. e \<noteq> EmptyDataError m)))"
  proof (cases "fst (fetch_content self bucket key w)")
    case (Inl e)
    then show ?thesis by (auto simp: read_csv_returned read_csv_try_result)
  next
    case (Inr d)
    show ?thesis
    proof (cases "rd d kw")
      case (Inl e)
      with Inr show ?thesis
        by (cases e) (simp_all add: read_csv_returned read_csv_try_result)
    next
      case df: (Inr df)
      with Inr show ?thesis by (simp add: read_csv_returned read_csv_try_result)
    qed
  qed
  show "is_Exception x \<longrightarrow> returned (read_csv_to_dataframe rd self bucket key kw w) \<noteq> Inl x"
    by (auto simp: read_csv_returned split: sum.splits if_splits)
qed

theorem read_csv_absent_classes_witness:
  "returned (read_csv_to_dataframe stub_read_csv (facade (raising access_denied)) ''test-bucket''
     ''nonexistent.csv'' () (fresh_world ())) = Inr None
   \<and> returned (read_csv_to_dataframe stub_read_csv (facade (test_script\<lparr>on_get_object := Inr (Inr [])\<rparr>))
     ''test-bucket'' ''empty.csv'' () (fresh_world ())) = Inr None
   \<and> returned (read_csv_to_dataframe stub_read_csv
     (facade (test_script\<lparr>on_get_object := Inr (Inr ''a,\"b'')\<rparr>))
     ''test-bucket'' ''broken.csv'' () (fresh_world ())) = Inr None
   \<and> returned (read_csv_to_dataframe stub_read_csv (facade test_script)
     ''test-bucket'' ''test.csv'' () (fresh_world ())) = Inr (Some [''name,age''])"
proof -
  have 1: "fst (fetch_content (facade (raising access_denied)) ''test-bucket'' ''nonexistent.csv''
      (fresh_world ())) = Inl access_denied"
    by (simp add: fetch_content_def and_then_eq invoke_eq doubles)
  have 2: "fst (fetch_content (facade (test_script\<lparr>on_get_object := Inr (Inr [])\<rparr>)) ''test-bucket''
      ''empty.csv'' (fresh_world ())) = Inr []"
    by (simp add: fetch_content_def and_then_eq invoke_eq doubles getitem_def)
  have 3: "fst (fetch_content (facade (test_script\<lparr>on_get_object := Inr (Inr ''a,\"b'')\<rparr>))
      ''test-bucket'' ''broken.csv'' (fresh_world ())) = Inr ''a,\"b''"
    by (simp add: fetch_content_def and_then_eq invoke_eq doubles getitem_def)
  have 4: "fst (fetch_content (facade test_script) ''test-bucket'' ''test.csv'' (fresh_world ()))
      = Inr ''name,age''"
    by (simp add: fetch_content_def and_then_eq invoke_eq doubles getitem_def)
  have ex: "is_Exception access_denied"
    by (simp add: access_denied_def)
  have r4: "returned (read_csv_to_dataframe stub_read_csv (facade test_script)
     ''test-bucket'' ''test.csv'' () (fresh_world ())) = Inr (Some [''name,age''])"
    by (simp add: read_csv_returned read_csv_try_result 4 stub_read_csv_def)
  show ?thesis
    using r4
      read_csv_absent_classes [where rd = stub_read_csv and self = "facade (raising access_denied)"
        and bucket = "''test-bucket''" and key = "''nonexistent.csv''" and kw = "()"
        and w = "fresh_world ()", THEN conjunct1]
      read_csv_absent_classes [where rd = stub_read_csv
        and self = "facade (test_script\<lparr>on_get_object := Inr (Inr [])\<rparr>)"
        and bucket = "''test-bucket''" and key = "''empty.csv''" and kw = "()"
        and w = "fresh_world ()", THEN conjunct1]
      read_csv_absent_classes [where rd = stub_read_csv
        and self = "facade (test_script\<lparr>on_get_object := Inr (Inr ''a,\"b'')\<rparr>)"
        and bucket = "''test-bucket''" and key = "''broken.csv''" and kw = "()"
        and w = "fresh_world ()", THEN conjunct1]
    by (simp add: 1 2 3 ex stub_read_csv_def)
qed

text \<open>
  Claim C4. When \<^verbatim>\<open>get_object\<close> raises a service error, or any other
  \<^verbatim>\<open>Exception\<close>, \<^verbatim>\<open>read_csv_to_dataframe\<close> returns \<^verbatim>\<open>None\<close>; and whatever \<^verbatim>\<open>get_object\<close>
  raises, the only call the method has made is that \<^verbatim>\<open>get_object\<close>: the body is
  not read and the decoder is not invoked.
\<close>
theorem read_csv_service_error_skips_decoder:
  assumes "fst (client_get_object (s3_client self) bucket key (sdk w)) = Inl e"
  shows "returned (read_csv_to_dataframe rd self bucket key kw w)
        = (if is_Exception e then Inr None else Inl e)
    \<and> calls (world_after (read_csv_to_dataframe rd self bucket key kw w)) = calls w @ [GetObject bucket key]"
  using assms
  by (simp add: read_csv_returned read_csv_try_result fetch_content_get_raises read_csv_calls_get_raises)

theorem read_csv_service_error_skips_decoder_witness:
  "fst (client_get_object (s3_client (facade (raising access_denied))) ''test-bucket'' ''nonexistent.csv''
     (sdk (fresh_world ()))) = Inl access_denied
   \<and> returned (read_csv_to_dataframe stub_read_csv (facade (raising access_denied)) ''test-bucket''
       ''nonexistent.csv'' () (fresh_world ())) = Inr None
   \<and> calls (world_after (read_csv_to_dataframe stub_read_csv (facade (raising access_denied))
       ''test-bucket'' ''nonexistent.csv'' () (fresh_world ()))) = [GetObject ''test-bucket'' ''nonexistent.csv'']"
proof -
  have h: "fst (client_get_object (s3_client (facade (raising access_denied))) ''test-bucket''
     ''nonexistent.csv'' (sdk (fresh_world ()))) = Inl access_denied"
    by (simp add: doubles)
  show ?thesis
    using h read_csv_service_error_skips_decoder [OF h, of stub_read_csv "()"]
    by (simp add: fresh_world_def access_denied_def)
qed

text \<open>
  Claim C5, where the code departs from it. When the service rejects an upload,
  the SDK's \<^verbatim>\<open>upload_file\<close> raises \<^verbatim>\<open>S3UploadFailedError\<close>, which the handler
  \<^verbatim>\<open>except ClientError\<close> does not catch: \<^verbatim>\<open>upload_file\<close> raises it to the caller
  and does not return false, against its docstring ("True if file was
  uploaded, else False").
\<close>

theorem upload_file_raises_when_upload_rejected:
  "fst (client_upload_file (s3_client (facade (raising upload_failed))) ''test.txt'' ''test-bucket''
     ''test-object.txt'' (sdk (fresh_world ()))) = Inl upload_failed
   \<and> returned (upload_file (facade (raising upload_failed)) ''test.txt'' ''test-bucket''
     (Some ''test-object.txt'') (fresh_world ())) = Inl upload_failed
   \<and> returned (upload_file (facade (raising upload_failed)) ''test.txt'' ''test-bucket''
     (Some ''test-object.txt'') (fresh_world ())) \<noteq> Inr False"
  by (simp add: upload_file_returned doubles)

text \<open>
  Claim C6. \<^verbatim>\<open>list_buckets\<close> returns the \<^verbatim>\<open>Name\<close> of each entry of the response's
  \<^verbatim>\<open>Buckets\<close> list, in the order of the response, and the empty list when the
  SDK call raises a service error.
\<close>

theorem list_buckets_names:
  "(fst (client_list_buckets (s3_client self) (sdk w)) = Inr response
      \<and> response ''Buckets'' = Some bs
      \<and> map (\<lambda>bucket. bucket ''Name'') bs = map Some names
      \<longrightarrow> returned (list_buckets self w) = Inr names)
   \<and> (fst (client_list_buckets (s3_client self) (sdk w)) = Inl (ClientError m)
      \<longrightarrow> returned (list_buckets self w) = Inr [])"
  by (auto simp: list_buckets_returned list_buckets_try_response list_buckets_try_raises
      getitem_def comprehension_names)

theorem list_buckets_names_witness:
  "returned (list_buckets (facade test_script) (fresh_world ())) = Inr [''bucket1'', ''bucket2'']
   \<and> returned (list_buckets (facade (raising access_denied)) (fresh_world ())) = Inr []"
  using
    list_buckets_names [where self = "facade test_script" and w = "fresh_world ()"
      and response = "[''Buckets'' \<mapsto> [[''Name'' \<mapsto> ''bucket1''], [''Name'' \<mapsto> ''bucket2'']]]"
      and bs = "[[''Name'' \<mapsto> ''bucket1''], [''Name'' \<mapsto> ''bucket2'']]"
      and names = "[''bucket1'', ''bucket2'']"]
    list_buckets_names [where self = "facade (raising access_denied)" and w = "fresh_world ()"
      and m = "''An error occurred (403): Access Denied''"]
  by (simp add: doubles)

text \<open>
  Claim C7. Over the storing test double, uploading an existing local file and
  then downloading the same bucket and key succeeds twice and writes the
  bytes of the original file to the destination path.
\<close>

theorem upload_download_round_trip:
  assumes "s3_client self = storing_client"
    and "local_files (sdk w) file_path = Some data"
  shows "let key = (case object_name of None \<Rightarrow> file_path | Some n \<Rightarrow> n);
             up = upload_file self file_path bucket object_name w;
             down = download_file (self_after up) bucket key dest (world_after up)
         in returned up = Inr True
          \<and> remote_objects (sdk (world_after up)) (bucket, key) = Some data
          \<and> returned down = Inr True
          \<and> local_files (sdk (world_after down)) dest = Some data"
  using assms
  by (simp add: Let_def upload_file_returned download_file_returned upload_file_sdk
      download_file_sdk self_after_upload_file storing_client_def)

theorem upload_download_round_trip_witness:
  "let self = \<lparr>logger = ''src.S3Pipeline'', s3_client = storing_client\<rparr>;
       w = fresh_world \<lparr>local_files = [''test.txt'' \<mapsto> ''hello''], remote_objects = Map.empty\<rparr>;
       up = upload_file self ''test.txt'' ''test-bucket'' None w;
       down = download_file (self_after up) ''test-bucket'' ''test.txt'' ''local-test.txt'' (world_after up)
   in local_files (sdk w) ''test.txt'' = Some ''hello''
    \<and> returned up = Inr True
    \<and> remote_objects (sdk (world_after up)) (''test-bucket'', ''test.txt'') = Some ''hello''
    \<and> returned down = Inr True
    \<and> local_files (sdk (world_after down)) ''local-test.txt'' = Some ''hello''"
  using upload_download_round_trip [where self = "\<lparr>logger = ''src.S3Pipeline'', s3_client = storing_client\<rparr>"
      and w = "fresh_world \<lparr>local_files = [''test.txt'' \<mapsto> ''hello''], remote_objects = Map.empty\<rparr>"
      and file_path = "''test.txt''" and data = "''hello''" and object_name = None
      and bucket = "''test-bucket''" and dest = "''local-test.txt''"]
  by (simp add: Let_def fresh_world_def)

text \<open>
  Claim C8. One call of \<^verbatim>\<open>upload_file\<close> or \<^verbatim>\<open>download_file\<close> is exactly one
  transfer call on the SDK client, whatever that call does (returns, raises a
  service error, raises anything else): the call list grows by that one entry,
  the state of the SDK afterwards is the state one application of the client's
  method to the state before leaves, and the result is read off what that one
  application returned or raised.
\<close>

theorem transfer_is_one_sdk_call:
  "calls (world_after (upload_file self file_path bucket object_name w)) =
     calls w @ [UploadFile file_path bucket (case object_name of None \<Rightarrow> file_path | Some n \<Rightarrow> n)]
   \<and> sdk (world_after (upload_file self file_path bucket object_name w)) =
     snd (client_upload_file (s3_client self) file_path bucket
            (case object_name of None \<Rightarrow> file_path | Some n \<Rightarrow> n) (sdk w))
   \<and> returned (upload_file self file_path bucket object_name w) =
     (case fst (client_upload_file (s3_client self) file_path bucket
                  (case object_name of None \<Rightarrow> file_path | Some n \<Rightarrow> n) (sdk w)) of
        Inr u \<Rightarrow> Inr True
      | Inl (ClientError m) \<Rightarrow> Inr False
      | Inl e \<Rightarrow> Inl e)
   \<and> calls (world_after (download_file self bucket key dest w)) =
     calls w @ [DownloadFile bucket key dest]
   \<and> sdk (world_after (download_file self bucket key dest w)) =
     snd (client_download_file (s3_client self) bucket key dest (sdk w))
   \<and> returned (download_file self bucket key dest w) =
     (case fst (client_download_file (s3_client self) bucket key dest (sdk w)) of
        Inr u \<Rightarrow> Inr True
      | Inl (ClientError m) \<Rightarrow> Inr False
      | Inl e \<Rightarrow> Inl e)"
  by (simp only: upload_file_calls download_file_calls upload_file_sdk download_file_sdk
      upload_file_returned download_file_returned simp_thms)

theorem transfer_is_one_sdk_call_witness:
  "sdk (world_after (upload_file \<lparr>logger = ''src.S3Pipeline'', s3_client = counting_client test_script\<rparr>
     ''test.txt'' ''test-bucket'' None (fresh_world 0))) = Suc 0
   \<and> returned (upload_file \<lparr>logger = ''src.S3Pipeline'', s3_client = counting_client test_script\<rparr>
     ''test.txt'' ''test-bucket'' None (fresh_world 0)) = Inr True
   \<and> calls (world_after (upload_file \<lparr>logger = ''src.S3Pipeline'', s3_client = counting_client test_script\<rparr>
     ''test.txt'' ''test-bucket'' None (fresh_world 0))) = [UploadFile ''test.txt'' ''test-bucket'' ''test.txt'']
   \<and> sdk (world_after (download_file
     \<lparr>logger = ''src.S3Pipeline'', s3_client = counting_client (raising access_denied)\<rparr>
     ''test-bucket'' ''test-object.txt'' ''local-test.txt'' (fresh_world 0))) = Suc 0
   \<and> returned (download_file
     \<lparr>logger = ''src.S3Pipeline'', s3_client = counting_client (raising access_denied)\<rparr>
     ''test-bucket'' ''test-object.txt'' ''local-test.txt'' (fresh_world 0)) = Inr False
   \<and> calls (world_after (download_file
     \<lparr>logger = ''src.S3Pipeline'', s3_client = counting_client (raising access_denied)\<rparr>
     ''test-bucket'' ''test-object.txt'' ''local-test.txt'' (fresh_world 0)))
     = [DownloadFile ''test-bucket'' ''test-object.txt'' ''local-test.txt'']"
  using
    transfer_is_one_sdk_call [where self = "\<lparr>logger = ''src.S3Pipeline'', s3_client = counting_client test_script\<rparr>"
      and file_path = "''test.txt''" and bucket = "''test-bucket''" and object_name = None
      and key = "''test-object.txt''" and dest = "''local-test.txt''" and w = "fresh_world 0"]
    transfer_is_one_sdk_call [where self = "\<lparr>logger = ''src.S3Pipeline'', s3_client = counting_client (raising access_denied)\<rparr>"
      and file_path = "''test.txt''" and bucket = "''test-bucket''" and object_name = None
      and key = "''test-object.txt''" and dest = "''local-test.txt''" and w = "fresh_world 0"]
  by (simp add: counting_client_def doubles)

text \<open>
  Claim C9. No method assigns to an attribute of the facade: after each of the
  five methods the object still holds the client handle and the logger it held
  before. A method's result is a function of the object, the arguments and the
  world alone.
\<close>
theorem methods_keep_object:
  "self_after (upload_file self file_path bucket object_name w) = self
   \<and> self_after (download_file self bucket key dest w) = self
   \<and> self_after (read_csv_to_dataframe rd self bucket key kw w) = self
   \<and> self_after (list_buckets self w) = self
   \<and> self_after (list_objects self bucket prefix w) = self"
  by (simp add: upload_file_def download_file_def read_csv_to_dataframe_def list_buckets_def
      list_objects_def Let_def split: prod.splits sum.splits exc.splits)

text \<open>
  Claim C10. When the iteration raises a service error after yielding pages,
  \<^verbatim>\<open>list_objects\<close> returns the empty list, not the keys gathered so far; a
  non-empty list is returned only when the iteration ended normally.
\<close>

theorem list_objects_discards_partial:
  "(fst (client_get_paginator (s3_client self) ''list_objects_v2'' (sdk w)) = Inr pg
      \<and> fst (paginate pg bucket prefix
            (snd (client_get_paginator (s3_client self) ''list_objects_v2'' (sdk w))))
          = Inr (foldr Yield ps (Raise (ClientError m)))
      \<and> (\<forall>p\<in>set ps. \<forall>cs. p ''Contents'' = Some cs \<longrightarrow> (\<forall>obj\<in>set cs. obj ''Key'' \<noteq> None))
      \<longrightarrow> returned (list_objects self bucket prefix w) = Inr [])
   \<and> (fst (client_get_paginator (s3_client self) ''list_objects_v2'' (sdk w)) = Inr pg
      \<and> fst (paginate pg bucket prefix
            (snd (client_get_paginator (s3_client self) ''list_objects_v2'' (sdk w)))) = Inr it
      \<and> returned (list_objects self bucket prefix w) = Inr ks \<and> ks \<noteq> []
      \<longrightarrow> completes it)"
proof (intro conjI impI)
  assume a: "fst (client_get_paginator (s3_client self) ''list_objects_v2'' (sdk w)) = Inr pg
      \<and> fst (paginate pg bucket prefix
            (snd (client_get_paginator (s3_client self) ''list_objects_v2'' (sdk w))))
          = Inr (foldr Yield ps (Raise (ClientError m)))
      \<and> (\<forall>p\<in>set ps. \<forall>cs. p ''Contents'' = Some cs \<longrightarrow> (\<forall>obj\<in>set cs. obj ''Key'' \<noteq> None))"
  then have "fst (list_objects_try self bucket prefix w)
      = for_page (foldr Yield ps (Raise (ClientError m))) []"
    by (simp add: list_objects_try_pages)
  also from a have "\<dots> = for_page (Raise (ClientError m)) ([] @ flattened_keys ps)"
    by (intro for_page_yields) simp
  finally show "returned (list_objects self bucket prefix w) = Inr []"
    by (simp add: list_objects_returned)
next
  assume a: "fst (client_get_paginator (s3_client self) ''list_objects_v2'' (sdk w)) = Inr pg
      \<and> fst (paginate pg bucket prefix
            (snd (client_get_paginator (s3_client self) ''list_objects_v2'' (sdk w)))) = Inr it
      \<and> returned (list_objects self bucket prefix w) = Inr ks \<and> ks \<noteq> []"
  then have t: "fst (list_objects_try self bucket prefix w) = for_page it []"
    by (simp add: list_objects_try_pages)
  from a have "returned (list_objects self bucket prefix w) = Inr ks" and "ks \<noteq> []"
    by simp_all
  then have "for_page it [] = Inr ks"
    unfolding list_objects_returned t by (simp split: sum.splits exc.splits)
  then show "completes it" by (rule for_page_completes)
qed

theorem list_objects_discards_partial_witness:
  "returned (list_objects (facade (two_pages_then (Raise access_denied))) ''test-bucket'' ''test/''
     (fresh_world ())) = Inr []
   \<and> returned (list_objects (facade (two_pages_then StopIteration)) ''test-bucket'' ''test/''
     (fresh_world ())) = Inr [''object1'', ''object2'', ''object3'']
   \<and> completes (foldr Yield
        [[''Contents'' \<mapsto> [[''Key'' \<mapsto> ''object1''], [''Key'' \<mapsto> ''object2'']]],
         [''Contents'' \<mapsto> [[''Key'' \<mapsto> ''object3'']]]] StopIteration)"
proof -
  let ?ps = "[[''Contents'' \<mapsto> [[''Key'' \<mapsto> ''object1''], [''Key'' \<mapsto> ''object2'']]],
              [''Contents'' \<mapsto> [[''Key'' \<mapsto> ''object3'']]]] :: page list"
  have ok: "returned (list_objects (facade (two_pages_then StopIteration)) ''test-bucket'' ''test/''
     (fresh_world ())) = Inr [''object1'', ''object2'', ''object3'']"
    by (simp add: list_objects_returned list_objects_try_def and_then_eq invoke_eq doubles
        two_pages_then_def getitem_def)
  show ?thesis
    using ok
      list_objects_discards_partial [where self = "facade (two_pages_then (Raise access_denied))"
        and w = "fresh_world ()" and bucket = "''test-bucket''" and prefix = "''test/''"
        and pg = "\<lparr>paginate = (\<lambda>bucket prefix s1. (Inr (foldr Yield ?ps (Raise access_denied)), s1))\<rparr>"
        and ps = ?ps and m = "''An error occurred (403): Access Denied''", THEN conjunct1]
      list_objects_discards_partial [where self = "facade (two_pages_then StopIteration)"
        and w = "fresh_world ()" and bucket = "''test-bucket''" and prefix = "''test/''"
        and pg = "\<lparr>paginate = (\<lambda>bucket prefix s1. (Inr (foldr Yield ?ps StopIteration), s1))\<rparr>"
        and it = "foldr Yield ?ps StopIteration"
        and ks = "[''object1'', ''object2'', ''object3'']", THEN conjunct2]
    by (simp add: doubles two_pages_then_def)
qed

end
